theory Spec2Isabelle
  imports Main
begin

section \<open>The symbolic value model (src/parse/Variable.h)\<close>

subsection \<open>Comparison operators\<close>

text \<open>
  \<^verbatim>\<open>enum class COMPARISON\<close> is a C++ scoped enumeration over \<^verbatim>\<open>int\<close>. An object of
  the type can hold any value of the underlying type, not only the six enumerators, and
  the \<^verbatim>\<open>default:\<close> branches of \<^verbatim>\<open>Negate\<close> and \<^verbatim>\<open>Dump\<close> are there
  for those values. The model therefore keeps the underlying integer and names the six
  enumerators by their values (declaration order, starting at 0).
\<close>

type_synonym COMPARISON = int

definition LESS_THAN :: COMPARISON where "LESS_THAN = 0"
definition LESS_THAN_EQUAL :: COMPARISON where "LESS_THAN_EQUAL = 1"
definition GREATER_THAN :: COMPARISON where "GREATER_THAN = 2"
definition GREATER_THAN_EQUAL :: COMPARISON where "GREATER_THAN_EQUAL = 3"
definition NOT_EQUAL :: COMPARISON where "NOT_EQUAL = 4"
definition EQUAL :: COMPARISON where "EQUAL = 5"

definition enumerators :: "COMPARISON list" where
  "enumerators =
     [LESS_THAN, LESS_THAN_EQUAL, GREATER_THAN, GREATER_THAN_EQUAL, NOT_EQUAL, EQUAL]"

text \<open>The exceptions the modelled code throws: \<^verbatim>\<open>std::runtime_error\<close> with its message.\<close>

datatype exn = runtime_error string

text \<open>
  \<^verbatim>\<open>inline COMPARISON Negate(COMPARISON op)\<close>: a \<^verbatim>\<open>switch\<close> with one case per
  enumerator and a throwing \<^verbatim>\<open>default\<close>.
\<close>

definition Negate :: "COMPARISON \<Rightarrow> exn + COMPARISON" where
  "Negate op =
     (if op = LESS_THAN then Inr GREATER_THAN_EQUAL
      else if op = LESS_THAN_EQUAL then Inr GREATER_THAN
      else if op = GREATER_THAN then Inr LESS_THAN_EQUAL
      else if op = GREATER_THAN_EQUAL then Inr LESS_THAN
      else if op = NOT_EQUAL then Inr EQUAL
      else if op = EQUAL then Inr NOT_EQUAL
      else Inl (runtime_error ''negate not implemented for this COMPARISON''))"

text \<open>\<^verbatim>\<open>inline const char* Dump(COMPARISON op)\<close>.\<close>

definition Dump :: "COMPARISON \<Rightarrow> exn + string" where
  "Dump op =
     (if op = LESS_THAN then Inr ''<''
      else if op = LESS_THAN_EQUAL then Inr ''<=''
      else if op = GREATER_THAN then Inr ''>''
      else if op = GREATER_THAN_EQUAL then Inr ''>=''
      else if op = NOT_EQUAL then Inr ''!=''
      else if op = EQUAL then Inr ''==''
      else Inl (runtime_error ''dump not implemented for this COMPARISON''))"

subsection \<open>Identifiers and value descriptions\<close>

text \<open>
  \<^verbatim>\<open>struct VariableIdentifier\<close>: one field, \<^verbatim>\<open>Name\<close>; equality is equality of names.
\<close>

datatype VariableIdentifier = VariableIdentifier (Name: string)

text \<open>
  \<^verbatim>\<open>struct BufferInfo\<close>: the fields \<^verbatim>\<open>NullPtr = false\<close> and
  \<^verbatim>\<open>AllocatedSize = 0\<close> with their default member initialisers, and two
  constructors, each of which sets one field and leaves the other at its default.
  \<^verbatim>\<open>size_t\<close> is modelled as \<open>nat\<close>: no arithmetic is done on the size.
\<close>

record BufferInfo =
  NullPtr :: bool
  AllocatedSize :: nat

definition BufferInfo_nullptr :: BufferInfo where
  "BufferInfo_nullptr = \<lparr>NullPtr = True, AllocatedSize = 0\<rparr>"

definition BufferInfo_size :: "nat \<Rightarrow> BufferInfo" where
  "BufferInfo_size sz = \<lparr>NullPtr = False, AllocatedSize = sz\<rparr>"

text \<open>
  \<^verbatim>\<open>struct PrimitiveInfo\<close> holds \<^verbatim>\<open>std::variant<bool, Integer, double>\<close> with
  \<^verbatim>\<open>Integer = long long\<close>. The only constructor takes an \<^verbatim>\<open>Integer\<close>, so
  every value the modelled code builds is an \<open>IntegerValue\<close>. Floating point values
  are kept abstract.
\<close>

typedecl double

datatype PrimitiveValue = BoolValue bool | IntegerValue int | DoubleValue double

datatype PrimitiveInfo = PrimitiveInfo (Value: PrimitiveValue)

definition PrimitiveInfo_Integer :: "int \<Rightarrow> PrimitiveInfo" where
  "PrimitiveInfo_Integer intValue = PrimitiveInfo (IntegerValue intValue)"

text \<open>\<^verbatim>\<open>struct VarCopyInfo\<close>: the identifier of the variable copied from.\<close>

datatype VarCopyInfo = VarCopyInfo (Source: VariableIdentifier)

subsection \<open>Variable states\<close>

text \<open>
  \<^verbatim>\<open>class VariableState\<close>: a tag \<^verbatim>\<open>State\<close> (default \<^verbatim>\<open>Unknown\<close>) and a variant
  \<^verbatim>\<open>Value\<close> (default \<^verbatim>\<open>std::monostate\<close>). The three overloads of \<^verbatim>\<open>Set\<close> write
  both fields.
\<close>

datatype STATE = Unknown | Primitive | Buffer | CopyVar

datatype StateValue =
    Monostate
  | BufferValue BufferInfo
  | PrimitiveInfoValue PrimitiveInfo
  | VarCopyValue VarCopyInfo

datatype VariableState = VariableState (State: STATE) (StateValue: StateValue)

definition VariableState_default :: VariableState where
  "VariableState_default = VariableState Unknown Monostate"

definition Set_Buffer :: "BufferInfo \<Rightarrow> VariableState \<Rightarrow> VariableState" where
  "Set_Buffer buffer s = VariableState Buffer (BufferValue buffer)"

definition Set_CopyVar :: "VarCopyInfo \<Rightarrow> VariableState \<Rightarrow> VariableState" where
  "Set_CopyVar copyInfo s = VariableState CopyVar (VarCopyValue copyInfo)"

definition Set_Primitive :: "PrimitiveInfo \<Rightarrow> VariableState \<Rightarrow> VariableState" where
  "Set_Primitive primitive s = VariableState Primitive (PrimitiveInfoValue primitive)"

text \<open>
  The values the two public constructors of \<^verbatim>\<open>BufferInfo\<close> can produce.
\<close>

definition constructed :: "BufferInfo \<Rightarrow> bool" where
  "constructed b \<longleftrightarrow> b = BufferInfo_nullptr \<or> (\<exists>sz. b = BufferInfo_size sz)"

text \<open>The four states as the traversal builds them, for use in statements.\<close>

definition Unknown_state :: VariableState where
  "Unknown_state = VariableState Unknown Monostate"

definition Primitive_state :: "int \<Rightarrow> VariableState" where
  "Primitive_state n = VariableState Primitive (PrimitiveInfoValue (PrimitiveInfo (IntegerValue n)))"

definition CopyVar_state :: "VariableIdentifier \<Rightarrow> VariableState" where
  "CopyVar_state source = VariableState CopyVar (VarCopyValue (VarCopyInfo source))"

definition Buffer_state :: "nat \<Rightarrow> VariableState" where
  "Buffer_state sz = VariableState Buffer (BufferValue \<lparr>NullPtr = False, AllocatedSize = sz\<rparr>)"

section \<open>The syntax tree the traversal consumes\<close>

text \<open>
  The traversal in src/parse/CodeBlockBuildingVisitor.cpp walks a Clang syntax tree. The
  tree is an input of the program; the model keeps the node classes the code
  distinguishes and, of each node, what the code reads from it.

  \<^item> A source position (\<^verbatim>\<open>Context.getFullLoc(x->getBeginLoc())\<close>) is a line and a
    column.
  \<^item> \<open>DeclRefExpr\<close> carries the declaration it refers to: a variable (\<^verbatim>\<open>VarDecl\<close>
    or a class derived from it, such as a parameter), for which
    \<^verbatim>\<open>dyn_cast<VarDecl>\<close> succeeds, or anything else (a function, an enumerator).
  \<^item> \<open>IntegerLiteral\<close> carries the number \<^verbatim>\<open>getValue().getSExtValue()\<close> returns.
  \<^item> \<open>StringLiteral\<close> carries the bytes of the literal (\<^verbatim>\<open>getBytes()\<close>, without a
    terminator); \<^verbatim>\<open>getByteLength()\<close> is their number.
  \<^item> \<open>ArraySubscriptExpr\<close> carries its two operands as written (\<^verbatim>\<open>getLHS()\<close>,
    \<^verbatim>\<open>getRHS()\<close>) and whether the right operand has integer type; \<^verbatim>\<open>getIdx()\<close>
    is the right operand when it has, the left one otherwise (\<^verbatim>\<open>3[buf]\<close>).
  \<^item> \<open>CallExpr\<close> carries the qualified name of \<^verbatim>\<open>getDirectCallee()\<close> when there is
    one, the callee expression and the arguments.
  \<^item> \<open>OtherStmt\<close> is a node of any other class, with its children.
  \<^item> A variable declaration carries its position, qualified name, type as text and
    initialiser (\<^verbatim>\<open>getAnyInitializer()\<close>).

  Clang represents conversions as nodes: in \<^verbatim>\<open>char* s = "hi";\<close> the initialiser of
  \<open>s\<close> is an \<open>ImplicitCastExpr\<close> (array-to-pointer decay) around the
  \<open>StringLiteral\<close>, while in \<^verbatim>\<open>char s[] = "hi";\<close> it is the \<open>StringLiteral\<close>
  itself; a variable read as a value is an \<open>ImplicitCastExpr\<close> (lvalue-to-rvalue)
  around the \<open>DeclRefExpr\<close>.
\<close>

type_synonym FullSourceLoc = "nat \<times> nat"

datatype Opcode =
    BO_Mul | BO_Div | BO_Rem | BO_Add | BO_Sub | BO_LT | BO_GT | BO_LE | BO_GE | BO_EQ | BO_NE
  | BO_LAnd | BO_LOr | BO_Assign | BO_MulAssign | BO_AddAssign | BO_SubAssign | BO_Comma

datatype DeclRef = VarDeclRef string | OtherDeclRef string

datatype stmt =
    CompoundStmt "stmt list"
  | DeclStmt "decl list"
  | IfStmt stmt stmt "stmt option"
  | ReturnStmt "stmt option"
  | DeclRefExpr DeclRef
  | IntegerLiteral int
  | StringLiteral string
  | ArraySubscriptExpr FullSourceLoc stmt stmt bool
  | BinaryOperator FullSourceLoc Opcode stmt stmt
  | CallExpr FullSourceLoc "string option" stmt "stmt list"
  | ImplicitCastExpr stmt
  | ParenExpr stmt
  | OtherStmt "stmt list"
and decl =
    VarDecl FullSourceLoc string string "stmt option"
  | ParmVarDecl FullSourceLoc string string
  | FunctionDecl FullSourceLoc string "decl list" "stmt option"
  | OtherDecl

section \<open>RecursiveASTVisitor\<close>

text \<open>
  The visitors derive from Clang's \<^verbatim>\<open>RecursiveASTVisitor\<close>. Its contract, as far as the
  code relies on it: \<^verbatim>\<open>TraverseStmt\<close> walks the tree depth first and in pre-order; on
  each node it calls the visitor's \<^verbatim>\<open>Traverse\<close> method for the node's class, whose
  default calls the \<^verbatim>\<open>Visit\<close> methods for the node and then traverses the children
  from left to right; a visitor that defines \<^verbatim>\<open>Traverse\<close> for a class replaces the
  default, children included; a \<^verbatim>\<open>Visit\<close> or \<^verbatim>\<open>Traverse\<close> method that returns
  false ends the whole traversal (the macro \<^verbatim>\<open>TRY_TO\<close>); the null statement is
  traversed by doing nothing.

  \<open>preorder\<close> lists the statement nodes of a tree in the order in which a visitor
  without \<^verbatim>\<open>Traverse\<close> methods of its own meets them.
\<close>

fun preorder :: "stmt \<Rightarrow> stmt list"
  and preorder_list :: "stmt list \<Rightarrow> stmt list"
  and preorder_decl :: "decl \<Rightarrow> stmt list"
  and preorder_decls :: "decl list \<Rightarrow> stmt list" where
  "preorder (CompoundStmt body) = CompoundStmt body # preorder_list body"
| "preorder (DeclStmt decls) = DeclStmt decls # preorder_decls decls"
| "preorder (IfStmt cond thn els) =
     IfStmt cond thn els # preorder cond @ preorder thn @
       (case els of None \<Rightarrow> [] | Some e \<Rightarrow> preorder e)"
| "preorder (ReturnStmt val) =
     ReturnStmt val # (case val of None \<Rightarrow> [] | Some e \<Rightarrow> preorder e)"
| "preorder (DeclRefExpr d) = [DeclRefExpr d]"
| "preorder (IntegerLiteral val) = [IntegerLiteral val]"
| "preorder (StringLiteral bytes) = [StringLiteral bytes]"
| "preorder (ArraySubscriptExpr loc lhs rhs rhsIsInteger) =
     ArraySubscriptExpr loc lhs rhs rhsIsInteger # preorder lhs @ preorder rhs"
| "preorder (BinaryOperator loc opc lhs rhs) =
     BinaryOperator loc opc lhs rhs # preorder lhs @ preorder rhs"
| "preorder (CallExpr loc callee fn args) =
     CallExpr loc callee fn args # preorder fn @ preorder_list args"
| "preorder (ImplicitCastExpr sub) = ImplicitCastExpr sub # preorder sub"
| "preorder (ParenExpr sub) = ParenExpr sub # preorder sub"
| "preorder (OtherStmt children) = OtherStmt children # preorder_list children"
| "preorder_list [] = []"
| "preorder_list (s # ss) = preorder s @ preorder_list ss"
| "preorder_decl (VarDecl loc name ty init) =
     (case init of None \<Rightarrow> [] | Some e \<Rightarrow> preorder e)"
| "preorder_decl (ParmVarDecl loc name ty) = []"
| "preorder_decl (FunctionDecl loc name params body) =
     preorder_decls params @ (case body of None \<Rightarrow> [] | Some b \<Rightarrow> preorder b)"
| "preorder_decl OtherDecl = []"
| "preorder_decls [] = []"
| "preorder_decls (d # ds) = preorder_decl d @ preorder_decls ds"

text \<open>
  \<^verbatim>\<open>TRY_TO\<close>: go on with the state a step left behind if the step returned true,
  return false otherwise. The state is mutated in place, so what a step has written
  stays written when it returns false.
\<close>

definition TRY_TO :: "bool \<times> 's \<Rightarrow> ('s \<Rightarrow> bool \<times> 's) \<Rightarrow> bool \<times> 's" where
  "TRY_TO r k = (if fst r then k (snd r) else (False, snd r))"

lemma TRY_TO_cong [fundef_cong]:
  "r = r' \<Longrightarrow> (\<And>s. fst r' \<Longrightarrow> s = snd r' \<Longrightarrow> k s = k' s) \<Longrightarrow> TRY_TO r k = TRY_TO r' k'"
  by (simp add: TRY_TO_def)

section \<open>Conditions, actions, blocks and the registry\<close>

text \<open>
  Modelled from the spec: the class \<^verbatim>\<open>Condition\<close> (its header is not among the source
  files). The traversal uses five of its operations, which the model takes as
  parameters, for any type \<open>'c\<close> of conditions:
  \<^item> \<open>Condition_default\<close>, the default-constructed condition, under which a function
    body is traversed (the spec's root condition "always true");
  \<^item> \<open>Condition_of\<close>, the constructor from a guard expression, which "fails with a
    ConditionParseError when the guard shape is not supported";
  \<^item> \<open>Condition_Negate\<close>, which can fail as well (\<open>Negate\<close> above throws);
  \<^item> \<open>Condition_And\<close> and \<open>IsAlwaysTrue\<close>, which return normally.
  \<open>None\<close> stands for a failure by an exception derived from \<^verbatim>\<open>std::exception\<close>,
  the ones the \<^verbatim>\<open>catch\<close> clause of \<^verbatim>\<open>TraverseIfStmt\<close> handles.
\<close>

record 'c ConditionOps =
  Condition_default :: 'c
  Condition_of :: "stmt \<Rightarrow> 'c option"
  Condition_Negate :: "'c \<Rightarrow> 'c option"
  Condition_And :: "'c \<Rightarrow> 'c \<Rightarrow> 'c"
  IsAlwaysTrue :: "'c \<Rightarrow> bool"

text \<open>
  Modelled from the spec: the four actions of ProcessedAction.h, each with the arguments
  its constructor is called with in CodeBlockBuildingVisitor.cpp: the condition in
  effect first, then the payload.
\<close>

datatype 'c ProcessedAction =
    VarDeclared 'c VariableIdentifier VariableState
  | VarAssigned 'c VariableIdentifier VariableState
  | ArrayIndexAccess 'c VariableIdentifier VariableState
  | FunctionCall 'c string "VariableState list"

fun action_condition :: "'c ProcessedAction \<Rightarrow> 'c" where
  "action_condition (VarDeclared cond var state) = cond"
| "action_condition (VarAssigned cond var state) = cond"
| "action_condition (ArrayIndexAccess cond var index) = cond"
| "action_condition (FunctionCall cond name params) = cond"

text \<open>
  Modelled from the spec: \<^verbatim>\<open>CodeBlock\<close>, "function identity + declaration location,
  ordered sequence of ProcessedAction, ordered list of parameter identifiers". The
  constructor takes the name and the location; \<^verbatim>\<open>AddProcessedAction\<close> and
  \<^verbatim>\<open>AddFunctionParameter\<close> append.
\<close>

record 'c CodeBlock =
  BlockName :: string
  BlockLocation :: FullSourceLoc
  Parameters :: "VariableIdentifier list"
  Actions :: "('c ProcessedAction \<times> FullSourceLoc) list"

definition CodeBlock_new :: "string \<Rightarrow> FullSourceLoc \<Rightarrow> 'c CodeBlock" where
  "CodeBlock_new name location =
     \<lparr>BlockName = name, BlockLocation = location, Parameters = [], Actions = []\<rparr>"

definition AddProcessedAction ::
  "'c ProcessedAction \<Rightarrow> FullSourceLoc \<Rightarrow> 'c CodeBlock \<Rightarrow> 'c CodeBlock" where
  "AddProcessedAction action location Target =
     Target\<lparr>Actions := Actions Target @ [(action, location)]\<rparr>"

definition AddFunctionParameter :: "VariableIdentifier \<Rightarrow> 'c CodeBlock \<Rightarrow> 'c CodeBlock" where
  "AddFunctionParameter param Target = Target\<lparr>Parameters := Parameters Target @ [param]\<rparr>"

text \<open>
  Modelled from the spec: \<^verbatim>\<open>BlockRegistry\<close>. What \<^verbatim>\<open>AddBlock\<close> does with a block
  is not in the source files; the model keeps the blocks passed to it, in the order of
  the calls.
\<close>

type_synonym 'c BlockRegistry = "'c CodeBlock list"

definition AddBlock :: "'c CodeBlock \<Rightarrow> 'c BlockRegistry \<Rightarrow> 'c BlockRegistry" where
  "AddBlock block Registry = Registry @ [block]"

section \<open>The two helper visitors\<close>

subsection \<open>VariableRefOrArrayVisitor\<close>

text \<open>
  The visitor has two \<^verbatim>\<open>Visit\<close> methods and no \<^verbatim>\<open>Traverse\<close> method of its own, so
  it meets the nodes of the tree it is started on in pre-order. A reference to a
  variable is recorded in \<^verbatim>\<open>FoundVar\<close>, replacing what was there, as long as
  \<^verbatim>\<open>LikelyFullVariableAssign\<close> holds; a subscript expression clears that flag for the
  rest of the traversal.
\<close>

record VariableRefOrArrayVisitor =
  FoundVar :: "VariableIdentifier option"
  LikelyFullVariableAssign :: bool

definition VariableRefOrArrayVisitor_new :: VariableRefOrArrayVisitor where
  "VariableRefOrArrayVisitor_new = \<lparr>FoundVar = None, LikelyFullVariableAssign = True\<rparr>"

text \<open>
  Modelled from the spec: the constructor \<^verbatim>\<open>VariableIdentifier(clang::VarDecl*)\<close>, which
  is defined outside the source files. A \<open>VariableIdentifier\<close> is "a named variable,
  identity by name": the constructor takes the qualified name of the declaration, here
  and wherever an identifier is built from a declaration.
\<close>

fun VariableRefOrArrayVisitor_Visit ::
  "stmt \<Rightarrow> VariableRefOrArrayVisitor \<Rightarrow> bool \<times> VariableRefOrArrayVisitor" where
  "VariableRefOrArrayVisitor_Visit (DeclRefExpr (VarDeclRef var)) this =
     (if LikelyFullVariableAssign this
      then (True, this\<lparr>FoundVar := Some (VariableIdentifier var)\<rparr>)
      else (True, this))"
| "VariableRefOrArrayVisitor_Visit (DeclRefExpr (OtherDeclRef d)) this = (True, this)"
| "VariableRefOrArrayVisitor_Visit (ArraySubscriptExpr loc lhs rhs rhsIsInteger) this =
     (True, this\<lparr>LikelyFullVariableAssign := False\<rparr>)"
| "VariableRefOrArrayVisitor_Visit node this = (True, this)"

fun VariableRefOrArrayVisitor_nodes ::
  "stmt list \<Rightarrow> VariableRefOrArrayVisitor \<Rightarrow> bool \<times> VariableRefOrArrayVisitor" where
  "VariableRefOrArrayVisitor_nodes [] this = (True, this)"
| "VariableRefOrArrayVisitor_nodes (node # nodes) this =
     TRY_TO (VariableRefOrArrayVisitor_Visit node this)
       (\<lambda>this'. VariableRefOrArrayVisitor_nodes nodes this')"

definition VariableRefOrArrayVisitor_TraverseStmt ::
  "stmt \<Rightarrow> VariableRefOrArrayVisitor \<Rightarrow> bool \<times> VariableRefOrArrayVisitor" where
  "VariableRefOrArrayVisitor_TraverseStmt s this = VariableRefOrArrayVisitor_nodes (preorder s) this"

subsection \<open>VariableStateFindVisitor\<close>

text \<open>
  The visitor's only method is \<^verbatim>\<open>TraverseIntegerLiteral\<close>, which stores the literal's
  value as a primitive state and returns false: the traversal of an argument ends at the
  first integer literal it meets, wherever in the argument's tree that is. The visitor's
  state is its field \<^verbatim>\<open>FoundValue\<close>.
\<close>

type_synonym VariableStateFindVisitor = "VariableState option"

definition TraverseIntegerLiteral ::
  "int \<Rightarrow> VariableStateFindVisitor \<Rightarrow> bool \<times> VariableStateFindVisitor" where
  "TraverseIntegerLiteral val FoundValue =
     (let state = Set_Primitive (PrimitiveInfo_Integer val) VariableState_default
      in (False, Some state))"

fun VariableStateFindVisitor_nodes ::
  "stmt list \<Rightarrow> VariableStateFindVisitor \<Rightarrow> bool \<times> VariableStateFindVisitor" where
  "VariableStateFindVisitor_nodes [] FoundValue = (True, FoundValue)"
| "VariableStateFindVisitor_nodes (IntegerLiteral val # nodes) FoundValue =
     TRY_TO (TraverseIntegerLiteral val FoundValue)
       (\<lambda>FoundValue'. VariableStateFindVisitor_nodes nodes FoundValue')"
| "VariableStateFindVisitor_nodes (node # nodes) FoundValue =
     VariableStateFindVisitor_nodes nodes FoundValue"

definition VariableStateFindVisitor_TraverseStmt ::
  "stmt \<Rightarrow> VariableStateFindVisitor \<Rightarrow> bool \<times> VariableStateFindVisitor" where
  "VariableStateFindVisitor_TraverseStmt s FoundValue =
     VariableStateFindVisitor_nodes (preorder s) FoundValue"

section \<open>ValueVisitBase: the visitors that build the trace\<close>

text \<open>
  \<^verbatim>\<open>FunctionVisitor\<close> and \<^verbatim>\<open>ConditionalContentVisitor\<close> share the methods of
  \<^verbatim>\<open>ValueVisitBase\<close> (the macro \<^verbatim>\<open>VALUE_VISITOR_VISIT_TYPES\<close> forwards to them) and
  write into the same target block. They differ in the condition under which they
  record and in \<^verbatim>\<open>VisitParmVarDecl\<close>, which only \<^verbatim>\<open>FunctionVisitor\<close> has.
  Output to \<^verbatim>\<open>llvm::outs()\<close> is not part of the model.
\<close>

datatype 'c visitor = FunctionVisitor | ConditionalContentVisitor 'c

text \<open>
  Modelled from the spec: \<^verbatim>\<open>ValueVisitBase::GetCurrentCondition\<close>, which
  \<^verbatim>\<open>FunctionVisitor\<close> inherits; the header that defines it is not among the source
  files. A function body is traversed "under the root condition always true", the
  default-constructed condition. \<^verbatim>\<open>ConditionalContentVisitor\<close> overrides the
  method and returns the condition it was constructed with.
\<close>

fun GetCurrentCondition :: "('c, 'm) ConditionOps_scheme \<Rightarrow> 'c visitor \<Rightarrow> 'c" where
  "GetCurrentCondition ops FunctionVisitor = Condition_default ops"
| "GetCurrentCondition ops (ConditionalContentVisitor Cond) = Cond"

text \<open>
  \<^verbatim>\<open>VisitVarDecl\<close>. The state starts as \<^verbatim>\<open>Unknown\<close> and becomes a buffer of the
  literal's byte length when the class of the initialiser node is \<^verbatim>\<open>StringLiteral\<close>.
\<close>

fun initial_state :: "stmt option \<Rightarrow> VariableState" where
  "initial_state (Some (StringLiteral bytes)) =
     Set_Buffer (BufferInfo_size (length bytes)) VariableState_default"
| "initial_state init = VariableState_default"

fun VisitVarDecl :: "'c \<Rightarrow> decl \<Rightarrow> 'c CodeBlock \<Rightarrow> bool \<times> 'c CodeBlock" where
  "VisitVarDecl cur (ParmVarDecl loc name ty) Target = (True, Target)"
| "VisitVarDecl cur (VarDecl loc name ty init) Target =
     (let state = initial_state init
      in (True, AddProcessedAction (VarDeclared cur (VariableIdentifier name) state) loc Target))"
| "VisitVarDecl cur d Target = (True, Target)"

text \<open>\<^verbatim>\<open>FunctionVisitor::VisitParmVarDecl\<close>.\<close>

fun VisitParmVarDecl :: "decl \<Rightarrow> 'c CodeBlock \<Rightarrow> bool \<times> 'c CodeBlock" where
  "VisitParmVarDecl (ParmVarDecl loc name ty) Target =
     (True, AddFunctionParameter (VariableIdentifier name) Target)"
| "VisitParmVarDecl d Target = (True, Target)"

text \<open>
  \<^verbatim>\<open>VisitArraySubscriptExpr\<close>. The helper visitor runs on \<^verbatim>\<open>getLHS()\<close>; the index
  is \<^verbatim>\<open>getIdx()\<close> and counts when the class of that node is \<^verbatim>\<open>IntegerLiteral\<close>.
  (The test for a null index has no counterpart: the tree has no null operands.)
\<close>

fun index_state :: "stmt \<Rightarrow> VariableState" where
  "index_state (IntegerLiteral val) =
     Set_Primitive (PrimitiveInfo_Integer val) VariableState_default"
| "index_state index = VariableState_default"

fun VisitArraySubscriptExpr :: "'c \<Rightarrow> stmt \<Rightarrow> 'c CodeBlock \<Rightarrow> bool \<times> 'c CodeBlock" where
  "VisitArraySubscriptExpr cur (ArraySubscriptExpr loc lhs rhs rhsIsInteger) Target =
     (let index = (if rhsIsInteger then rhs else lhs);
          lhsVisitor = snd (VariableRefOrArrayVisitor_TraverseStmt lhs VariableRefOrArrayVisitor_new)
      in case FoundVar lhsVisitor of
           None \<Rightarrow> (True, Target)
         | Some var \<Rightarrow>
             (let indexValue = index_state index
              in if State indexValue \<noteq> Unknown
                 then (True, AddProcessedAction (ArrayIndexAccess cur var indexValue) loc Target)
                 else (True, Target)))"
| "VisitArraySubscriptExpr cur expr Target = (True, Target)"

text \<open>\<^verbatim>\<open>VisitBinaryOperator\<close>: one helper visitor for each side of an assignment.\<close>

fun VisitBinaryOperator :: "'c \<Rightarrow> stmt \<Rightarrow> 'c CodeBlock \<Rightarrow> bool \<times> 'c CodeBlock" where
  "VisitBinaryOperator cur (BinaryOperator loc opc lhs rhs) Target =
     (if BO_Assign \<noteq> opc then (True, Target)
      else
        (let lhsVisitor = snd (VariableRefOrArrayVisitor_TraverseStmt lhs VariableRefOrArrayVisitor_new);
             rhsVisitor = snd (VariableRefOrArrayVisitor_TraverseStmt rhs VariableRefOrArrayVisitor_new)
         in case (FoundVar lhsVisitor, FoundVar rhsVisitor) of
              (Some target, Some source) \<Rightarrow>
                (let state = Set_CopyVar (VarCopyInfo source) VariableState_default
                 in (True, AddProcessedAction (VarAssigned cur target state) loc Target))
            | _ \<Rightarrow> (True, Target)))"
| "VisitBinaryOperator cur expr Target = (True, Target)"

text \<open>
  \<^verbatim>\<open>TraverseCallExpr\<close>. Each argument is given to a fresh
  \<^verbatim>\<open>VariableStateFindVisitor\<close>; the loop pushes one state per argument.
\<close>

definition argument_state :: "stmt \<Rightarrow> VariableState" where
  "argument_state arg =
     (case snd (VariableStateFindVisitor_TraverseStmt arg None) of
        Some FoundValue \<Rightarrow> FoundValue
      | None \<Rightarrow> VariableState_default)"

fun callParams_loop :: "stmt list \<Rightarrow> VariableState list \<Rightarrow> VariableState list" where
  "callParams_loop [] callParams = callParams"
| "callParams_loop (arg # args) callParams =
     callParams_loop args (callParams @ [argument_state arg])"

fun TraverseCallExpr :: "'c \<Rightarrow> stmt \<Rightarrow> 'c CodeBlock \<Rightarrow> bool \<times> 'c CodeBlock" where
  "TraverseCallExpr cur (CallExpr loc None fn args) Target = (True, Target)"
| "TraverseCallExpr cur (CallExpr loc (Some functionName) fn args) Target =
     (let callParams = callParams_loop args []
      in (True, AddProcessedAction (FunctionCall cur functionName callParams) loc Target))"
| "TraverseCallExpr cur expr Target = (True, Target)"

text \<open>
  The traversal of the two visitors. \<^verbatim>\<open>TraverseIfStmt\<close> and \<^verbatim>\<open>TraverseCallExpr\<close>
  replace the default for their node classes, so neither the guard of a conditional nor
  the callee and the arguments of a call are traversed by these visitors. Every other
  node gets the default: its \<^verbatim>\<open>Visit\<close> methods, then its children.
  \<^verbatim>\<open>TraverseIfStmt\<close> starts a \<^verbatim>\<open>ConditionalContentVisitor\<close> on each branch it
  enters and ignores what its traversal returns.
\<close>

fun TraverseStmt ::
    "('c, 'm) ConditionOps_scheme \<Rightarrow> 'c visitor \<Rightarrow> stmt \<Rightarrow> 'c CodeBlock \<Rightarrow> bool \<times> 'c CodeBlock"
  and TraverseStmts ::
    "('c, 'm) ConditionOps_scheme \<Rightarrow> 'c visitor \<Rightarrow> stmt list \<Rightarrow> 'c CodeBlock \<Rightarrow> bool \<times> 'c CodeBlock"
  and TraverseDecl ::
    "('c, 'm) ConditionOps_scheme \<Rightarrow> 'c visitor \<Rightarrow> decl \<Rightarrow> 'c CodeBlock \<Rightarrow> bool \<times> 'c CodeBlock"
  and TraverseDecls ::
    "('c, 'm) ConditionOps_scheme \<Rightarrow> 'c visitor \<Rightarrow> decl list \<Rightarrow> 'c CodeBlock \<Rightarrow> bool \<times> 'c CodeBlock"
  where
  "TraverseStmt ops v (IfStmt cond thn els) Target =
     (case Condition_of ops cond of
        None \<Rightarrow> (True, Target)
      | Some condition \<Rightarrow>
          (case Condition_Negate ops condition of
             None \<Rightarrow> (True, Target)
           | Some negated \<Rightarrow>
               (let Target1 =
                      (if \<not> IsAlwaysTrue ops negated
                       then snd (TraverseStmt ops
                                  (ConditionalContentVisitor
                                     (Condition_And ops (GetCurrentCondition ops v) condition))
                                  thn Target)
                       else Target);
                    Target2 =
                      (if \<not> IsAlwaysTrue ops condition
                       then (case els of
                               None \<Rightarrow> Target1
                             | Some e \<Rightarrow>
                                 snd (TraverseStmt ops
                                        (ConditionalContentVisitor
                                           (Condition_And ops (GetCurrentCondition ops v) negated))
                                        e Target1))
                       else Target1)
                in (True, Target2))))"
| "TraverseStmt ops v (CallExpr loc callee fn args) Target =
     TraverseCallExpr (GetCurrentCondition ops v) (CallExpr loc callee fn args) Target"
| "TraverseStmt ops v (ArraySubscriptExpr loc lhs rhs rhsIsInteger) Target =
     TRY_TO (VisitArraySubscriptExpr (GetCurrentCondition ops v)
               (ArraySubscriptExpr loc lhs rhs rhsIsInteger) Target)
       (\<lambda>Target1. TRY_TO (TraverseStmt ops v lhs Target1)
          (\<lambda>Target2. TraverseStmt ops v rhs Target2))"
| "TraverseStmt ops v (BinaryOperator loc opc lhs rhs) Target =
     TRY_TO (VisitBinaryOperator (GetCurrentCondition ops v)
               (BinaryOperator loc opc lhs rhs) Target)
       (\<lambda>Target1. TRY_TO (TraverseStmt ops v lhs Target1)
          (\<lambda>Target2. TraverseStmt ops v rhs Target2))"
| "TraverseStmt ops v (CompoundStmt body) Target = TraverseStmts ops v body Target"
| "TraverseStmt ops v (DeclStmt decls) Target = TraverseDecls ops v decls Target"
| "TraverseStmt ops v (ReturnStmt val) Target =
     (case val of None \<Rightarrow> (True, Target) | Some e \<Rightarrow> TraverseStmt ops v e Target)"
| "TraverseStmt ops v (DeclRefExpr d) Target = (True, Target)"
| "TraverseStmt ops v (IntegerLiteral val) Target = (True, Target)"
| "TraverseStmt ops v (StringLiteral bytes) Target = (True, Target)"
| "TraverseStmt ops v (ImplicitCastExpr sub) Target = TraverseStmt ops v sub Target"
| "TraverseStmt ops v (ParenExpr sub) Target = TraverseStmt ops v sub Target"
| "TraverseStmt ops v (OtherStmt children) Target = TraverseStmts ops v children Target"
| "TraverseStmts ops v [] Target = (True, Target)"
| "TraverseStmts ops v (s # ss) Target =
     TRY_TO (TraverseStmt ops v s Target) (\<lambda>Target1. TraverseStmts ops v ss Target1)"
| "TraverseDecl ops v (VarDecl loc name ty init) Target =
     TRY_TO (VisitVarDecl (GetCurrentCondition ops v) (VarDecl loc name ty init) Target)
       (\<lambda>Target1. case init of
                     None \<Rightarrow> (True, Target1)
                   | Some e \<Rightarrow> TraverseStmt ops v e Target1)"
| "TraverseDecl ops v (ParmVarDecl loc name ty) Target =
     TRY_TO (VisitVarDecl (GetCurrentCondition ops v) (ParmVarDecl loc name ty) Target)
       (\<lambda>Target1. case v of
                     FunctionVisitor \<Rightarrow> VisitParmVarDecl (ParmVarDecl loc name ty) Target1
                   | ConditionalContentVisitor Cond \<Rightarrow> (True, Target1))"
| "TraverseDecl ops v (FunctionDecl loc name params body) Target =
     TRY_TO (TraverseDecls ops v params Target)
       (\<lambda>Target1. case body of
                     None \<Rightarrow> (True, Target1)
                   | Some b \<Rightarrow> TraverseStmt ops v b Target1)"
| "TraverseDecl ops v OtherDecl Target = (True, Target)"
| "TraverseDecls ops v [] Target = (True, Target)"
| "TraverseDecls ops v (d # ds) Target =
     TRY_TO (TraverseDecl ops v d Target) (\<lambda>Target1. TraverseDecls ops v ds Target1)"

section \<open>CodeBlockBuildingVisitor\<close>

text \<open>
  \<^verbatim>\<open>CodeBlockBuildingVisitor::TraverseFunctionDecl\<close>: a new block with the function's
  qualified name and the position of the declaration, a \<^verbatim>\<open>FunctionVisitor\<close> run on
  the declaration (parameters, then the body when there is one), and the block handed to
  the registry.
\<close>

fun TraverseFunctionDecl ::
  "('c, 'm) ConditionOps_scheme \<Rightarrow> decl \<Rightarrow> 'c BlockRegistry \<Rightarrow> bool \<times> 'c BlockRegistry" where
  "TraverseFunctionDecl ops (FunctionDecl loc name params body) Registry =
     (let block = CodeBlock_new name loc;
          block' = snd (TraverseDecl ops FunctionVisitor (FunctionDecl loc name params body) block)
      in (True, AddBlock block' Registry))"
| "TraverseFunctionDecl ops d Registry = (True, Registry)"

section \<open>Notions used in the statements\<close>

text \<open>
  What the helper visitors compute, said without them: the variable references that
  precede the first subscript expression in pre-order, of which the last is kept, and the
  first integer literal in pre-order.
\<close>

fun is_ArraySubscriptExpr :: "stmt \<Rightarrow> bool" where
  "is_ArraySubscriptExpr (ArraySubscriptExpr loc lhs rhs rhsIsInteger) = True"
| "is_ArraySubscriptExpr node = False"

fun variable_reference :: "stmt \<Rightarrow> VariableIdentifier option" where
  "variable_reference (DeclRefExpr (VarDeclRef var)) = Some (VariableIdentifier var)"
| "variable_reference node = None"

definition references_before_subscript :: "stmt list \<Rightarrow> VariableIdentifier list" where
  "references_before_subscript nodes =
     List.map_filter variable_reference (takeWhile (\<lambda>n. \<not> is_ArraySubscriptExpr n) nodes)"

definition last_reference_before_subscript :: "stmt \<Rightarrow> VariableIdentifier option" where
  "last_reference_before_subscript e =
     (case references_before_subscript (preorder e) of
        [] \<Rightarrow> None
      | r # rs \<Rightarrow> Some (last (r # rs)))"

fun integer_literal :: "stmt \<Rightarrow> int option" where
  "integer_literal (IntegerLiteral val) = Some val"
| "integer_literal node = None"

definition first_integer_literal :: "stmt \<Rightarrow> int option" where
  "first_integer_literal e =
     (case List.map_filter integer_literal (preorder e) of
        [] \<Rightarrow> None
      | val # vals \<Rightarrow> Some val)"

text \<open>
  A bare variable: a reference to a variable, possibly in parentheses or under implicit
  conversions.
\<close>

fun bare_variable :: "stmt \<Rightarrow> string option" where
  "bare_variable (DeclRefExpr (VarDeclRef var)) = Some var"
| "bare_variable (ImplicitCastExpr sub) = bare_variable sub"
| "bare_variable (ParenExpr sub) = bare_variable sub"
| "bare_variable e = None"

text \<open>
  The actions a step appends to a block, and the conditions reachable from a condition
  by conjoining further ones: a visitor started under \<open>base\<close> records under \<open>base\<close>,
  and the visitors it starts on nested branches record under conjunctions built on it.
\<close>

definition emitted ::
  "'c CodeBlock \<Rightarrow> 'c CodeBlock \<Rightarrow> ('c ProcessedAction \<times> FullSourceLoc) list" where
  "emitted Target Target' = drop (length (Actions Target)) (Actions Target')"

inductive under :: "('c, 'm) ConditionOps_scheme \<Rightarrow> 'c \<Rightarrow> 'c \<Rightarrow> bool"
  for ops :: "('c, 'm) ConditionOps_scheme" and base :: 'c where
  under_base: "under ops base base"
| under_And: "under ops base d \<Longrightarrow> under ops base (Condition_And ops d x)"


definition same_function :: "'c CodeBlock \<Rightarrow> 'c CodeBlock \<Rightarrow> bool" where
  "same_function T T' \<longleftrightarrow> BlockName T' = BlockName T \<and> BlockLocation T' = BlockLocation T"

section \<open>A condition algebra and inputs for concrete runs\<close>

text \<open>
  The theorems below hold for every choice of the condition operations. To run the
  traversal on concrete trees, this is one choice: a guard that is an integer literal is
  a constant condition, a guard that is a variable says the variable is non-zero, a guard
  \<^verbatim>\<open>a && b\<close> is the conjunction of the two; no other guard can be modelled, and a
  conjunction cannot be negated.
\<close>

datatype ExampleCondition =
    CAlways
  | CConstant bool
  | CVariable string bool
  | CAnd ExampleCondition ExampleCondition

fun example_of :: "stmt \<Rightarrow> ExampleCondition option" where
  "example_of (IntegerLiteral val) = Some (CConstant (val \<noteq> 0))"
| "example_of (DeclRefExpr (VarDeclRef var)) = Some (CVariable var True)"
| "example_of (ImplicitCastExpr sub) = example_of sub"
| "example_of (ParenExpr sub) = example_of sub"
| "example_of (BinaryOperator loc BO_LAnd lhs rhs) =
     (case (example_of lhs, example_of rhs) of
        (Some a, Some b) \<Rightarrow> Some (CAnd a b)
      | _ \<Rightarrow> None)"
| "example_of guard = None"

fun example_Negate :: "ExampleCondition \<Rightarrow> ExampleCondition option" where
  "example_Negate CAlways = Some (CConstant False)"
| "example_Negate (CConstant b) = Some (CConstant (\<not> b))"
| "example_Negate (CVariable var nonzero) = Some (CVariable var (\<not> nonzero))"
| "example_Negate (CAnd a b) = None"

fun example_IsAlwaysTrue :: "ExampleCondition \<Rightarrow> bool" where
  "example_IsAlwaysTrue CAlways = True"
| "example_IsAlwaysTrue (CConstant b) = b"
| "example_IsAlwaysTrue c = False"

definition example_ops :: "ExampleCondition ConditionOps" where
  "example_ops =
     \<lparr>Condition_default = CAlways, Condition_of = example_of,
      Condition_Negate = example_Negate, Condition_And = CAnd,
      IsAlwaysTrue = example_IsAlwaysTrue\<rparr>"







text \<open>
  \<^verbatim>\<open>target = source;\<close> on a given line, with both sides variables, and the action it
  gives rise to.
\<close>

definition assign :: "nat \<Rightarrow> string \<Rightarrow> string \<Rightarrow> stmt" where
  "assign line target source =
     BinaryOperator (line, 5) BO_Assign (DeclRefExpr (VarDeclRef target))
       (ImplicitCastExpr (DeclRefExpr (VarDeclRef source)))"

definition copy_action ::
  "'c \<Rightarrow> nat \<Rightarrow> string \<Rightarrow> string \<Rightarrow> 'c ProcessedAction \<times> FullSourceLoc" where
  "copy_action cond line target source =
     (VarAssigned cond (VariableIdentifier target) (CopyVar_state (VariableIdentifier source)),
      (line, 5))"

section \<open>Properties of the traversal\<close>

subsection \<open>Return values\<close>

lemmas Visit_simps = VisitVarDecl.simps VisitParmVarDecl.simps VisitArraySubscriptExpr.simps
  VisitBinaryOperator.simps TraverseCallExpr.simps

declare Visit_simps [simp del]

lemma TRY_TO_True [simp]: "TRY_TO (True, s) k = k s"
  by (simp add: TRY_TO_def)

lemma TRY_TO_fst [simp]: "fst (TRY_TO r k) \<longleftrightarrow> fst r \<and> fst (k (snd r))"
  by (simp add: TRY_TO_def)

lemma TRY_TO_snd: "fst r \<Longrightarrow> TRY_TO r k = k (snd r)"
  by (simp add: TRY_TO_def)

lemma VisitVarDecl_fst [simp]: "fst (VisitVarDecl cur d T) = True"
  by (cases d) (simp_all add: Visit_simps Let_def)

lemma VisitParmVarDecl_fst [simp]: "fst (VisitParmVarDecl d T) = True"
  by (cases d) (simp_all add: Visit_simps)

lemma VisitArraySubscriptExpr_fst [simp]: "fst (VisitArraySubscriptExpr cur e T) = True"
  by (cases e) (simp_all add: Visit_simps Let_def split: option.splits)

lemma VisitBinaryOperator_fst [simp]: "fst (VisitBinaryOperator cur e T) = True"
  by (cases e) (simp_all add: Visit_simps Let_def split: option.splits)

lemma TraverseCallExpr_fst [simp]: "fst (TraverseCallExpr cur e T) = True"
proof (cases e)
  case (CallExpr loc callee fn args)
  then show ?thesis by (cases callee) (simp_all add: Visit_simps Let_def)
qed (simp_all add: Visit_simps)

text \<open>No method of the two trace-building visitors ends the traversal.\<close>

lemma Traverse_fst:
  "fst (TraverseStmt ops v s T)"
  "fst (TraverseStmts ops v ss T)"
  "fst (TraverseDecl ops v d T)"
  "fst (TraverseDecls ops v ds T)"
  by (induction ops v s T and ops v ss T and ops v d T and ops v ds T
      rule: TraverseStmt_TraverseStmts_TraverseDecl_TraverseDecls.induct)
    (simp_all add: Let_def split: option.splits visitor.splits)

lemma TraverseStmts_append:
  "TraverseStmts ops v (xs @ ys) T = TraverseStmts ops v ys (snd (TraverseStmts ops v xs T))"
  by (induction xs arbitrary: T) (simp_all add: TRY_TO_snd Traverse_fst)

subsection \<open>What a traversal does to its target block\<close>

text \<open>
  One induction over the traversal serves every relation between the block before and
  after that is reflexive and transitive, holds across the two ways of writing to a
  block, and holds for a visitor when it holds for the visitors started on its branches.
\<close>

lemma Traverse_rel:
  fixes P :: "('c, 'm) ConditionOps_scheme \<Rightarrow> 'c \<Rightarrow> 'c CodeBlock \<Rightarrow> 'c CodeBlock \<Rightarrow> bool"
  assumes refl: "\<And>ops base T. P ops base T T"
    and trans: "\<And>ops base T T1 T2. P ops base T T1 \<Longrightarrow> P ops base T1 T2 \<Longrightarrow> P ops base T T2"
    and weaken: "\<And>ops base x T T'. P ops (Condition_And ops base x) T T' \<Longrightarrow> P ops base T T'"
    and add: "\<And>ops base action loc T.
                action_condition action = base \<Longrightarrow> P ops base T (AddProcessedAction action loc T)"
    and param: "\<And>ops base p T. P ops base T (AddFunctionParameter p T)"
  shows "P ops (GetCurrentCondition ops v) T (snd (TraverseStmt ops v s T))"
    and "P ops (GetCurrentCondition ops v) T (snd (TraverseStmts ops v ss T))"
    and "P ops (GetCurrentCondition ops v) T (snd (TraverseDecl ops v d T))"
    and "P ops (GetCurrentCondition ops v) T (snd (TraverseDecls ops v ds T))"
proof (induction ops v s T and ops v ss T and ops v d T and ops v ds T
    rule: TraverseStmt_TraverseStmts_TraverseDecl_TraverseDecls.induct)
  case (1 ops v cond thn els Target)
  show ?case
  proof (cases "Condition_of ops cond")
    case None
    then show ?thesis by (simp add: refl)
  next
    case (Some condition)
    note c = this
    show ?thesis
    proof (cases "Condition_Negate ops condition")
      case None
      with c show ?thesis by (simp add: refl)
    next
      case (Some negated)
      note n = this
      define cur where "cur = GetCurrentCondition ops v"
      define T1 where "T1 =
        (if \<not> IsAlwaysTrue ops negated
         then snd (TraverseStmt ops (ConditionalContentVisitor (Condition_And ops cur condition))
                    thn Target)
         else Target)"
      define T2 where "T2 =
        (if \<not> IsAlwaysTrue ops condition
         then (case els of None \<Rightarrow> T1
               | Some e \<Rightarrow> snd (TraverseStmt ops
                                   (ConditionalContentVisitor (Condition_And ops cur negated)) e T1))
         else T1)"
      have res: "TraverseStmt ops v (IfStmt cond thn els) Target = (True, T2)"
        unfolding T2_def T1_def cur_def using c n by (simp add: Let_def)
      have s1: "P ops cur Target T1"
        using "1.IH"(1) [OF c n] unfolding T1_def cur_def
        by (auto intro: weaken refl)
      have s2: "P ops cur T1 T2"
      proof (cases "\<not> IsAlwaysTrue ops condition")
        case False
        then show ?thesis by (simp add: T2_def refl)
      next
        case True
        show ?thesis
        proof (cases els)
          case None
          then show ?thesis by (simp add: T2_def refl)
        next
          case (Some e)
          from "1.IH"(2) [OF c n T1_def [unfolded cur_def] True Some]
          show ?thesis using True Some unfolding T2_def cur_def
            by (auto intro: weaken)
        qed
      qed
      from s1 s2 res show ?thesis
        by (auto simp: cur_def intro: trans)
    qed
  qed
next
  case (2 ops v loc callee fn args Target)
  show ?case by (cases callee) (simp_all add: Visit_simps Let_def refl add)
next
  case (3 ops v loc lhs rhs rhsIsInteger Target)
  have "P ops (GetCurrentCondition ops v) Target
          (snd (VisitArraySubscriptExpr (GetCurrentCondition ops v)
                 (ArraySubscriptExpr loc lhs rhs rhsIsInteger) Target))"
    by (simp add: Visit_simps Let_def refl add split: option.splits)
  with 3 show ?case by (auto simp: TRY_TO_def intro: trans)
next
  case (4 ops v loc opc lhs rhs Target)
  have "P ops (GetCurrentCondition ops v) Target
          (snd (VisitBinaryOperator (GetCurrentCondition ops v)
                 (BinaryOperator loc opc lhs rhs) Target))"
    by (simp add: Visit_simps Let_def refl add split: option.splits)
  with 4 show ?case by (auto simp: TRY_TO_def intro: trans)
next
  case (7 ops v val Target)
  then show ?case by (simp add: refl split: option.splits)
next
  case (15 ops v s ss Target)
  then show ?case by (auto simp: TRY_TO_def intro: trans)
next
  case (16 ops v loc name ty init Target)
  have "P ops (GetCurrentCondition ops v) Target
          (snd (VisitVarDecl (GetCurrentCondition ops v) (VarDecl loc name ty init) Target))"
    by (simp add: Visit_simps Let_def add)
  with 16 show ?case by (auto simp: TRY_TO_def intro: trans split: option.splits)
next
  case (17 ops v loc name ty Target)
  then show ?case by (simp add: Visit_simps refl param split: visitor.splits)
next
  case (18 ops v loc name params body Target)
  then show ?case by (auto simp: TRY_TO_def intro: trans split: option.splits)
next
  case (21 ops v d ds Target)
  then show ?case by (auto simp: TRY_TO_def intro: trans)
qed (simp_all add: refl)









text \<open>The name and the location of a block stay what the constructor made them.\<close>

lemma TraverseDecl_same_function:
  "same_function T (snd (TraverseDecl ops v d T))"
  by (rule Traverse_rel(3) [where P = "\<lambda>ops base. same_function"])
    (auto simp: same_function_def AddProcessedAction_def AddFunctionParameter_def)

subsection \<open>What the helper visitors find\<close>

lemma VariableRefOrArrayVisitor_Visit_fst [simp]:
  "fst (VariableRefOrArrayVisitor_Visit node this) = True"
  by (cases "(node, this)" rule: VariableRefOrArrayVisitor_Visit.cases) simp_all




lemma VariableStateFindVisitor_nodes_finds:
  "snd (VariableStateFindVisitor_nodes nodes None) =
     (case List.map_filter integer_literal nodes of
        [] \<Rightarrow> None
      | val # vals \<Rightarrow> Some (Primitive_state val))"
proof (induction nodes)
  case Nil
  then show ?case by simp
next
  case (Cons node nodes)
  then show ?case
    by (cases node)
      (simp_all add: TraverseIntegerLiteral_def TRY_TO_def Let_def
        Primitive_state_def Set_Primitive_def PrimitiveInfo_Integer_def)
qed

text \<open>The helper visitor of call arguments finds the first integer literal in pre-order.\<close>

lemma argument_state_eq:
  "argument_state arg =
     (case first_integer_literal arg of
        Some n \<Rightarrow> Primitive_state n
      | None \<Rightarrow> Unknown_state)"
  by (simp add: argument_state_def VariableStateFindVisitor_TraverseStmt_def
      VariableStateFindVisitor_nodes_finds first_integer_literal_def Unknown_state_def
      VariableState_default_def split: list.splits)

lemma callParams_loop_eq: "callParams_loop args acc = acc @ map argument_state args"
  by (induction args arbitrary: acc) simp_all



lemma bare_variable_no_literal:
  "bare_variable e = Some var \<Longrightarrow> List.map_filter integer_literal (preorder e) = []"
  by (induction e rule: bare_variable.induct) simp_all

lemma subscript_last [simp]:
  "last_reference_before_subscript (ArraySubscriptExpr loc lhs rhs rhsIsInteger) = None"
  by (simp add: last_reference_before_subscript_def references_before_subscript_def)

lemma literal_last [simp]: "last_reference_before_subscript (IntegerLiteral n) = None"
  by (simp add: last_reference_before_subscript_def references_before_subscript_def)

subsection \<open>Concrete runs\<close>

lemmas eval_simps = Visit_simps Let_def TRY_TO_def AddProcessedAction_def AddFunctionParameter_def
  CodeBlock_new_def AddBlock_def VariableRefOrArrayVisitor_TraverseStmt_def
  VariableRefOrArrayVisitor_new_def VariableStateFindVisitor_TraverseStmt_def
  TraverseIntegerLiteral_def argument_state_def Set_Buffer_def Set_CopyVar_def Set_Primitive_def
  PrimitiveInfo_Integer_def VariableState_default_def BufferInfo_size_def example_ops_def
  Primitive_state_def Unknown_state_def CopyVar_state_def Buffer_state_def

section \<open>Conditional statements\<close>




text \<open>
  Claim C2. When the guard of a conditional cannot be modelled (the construction of the
  condition fails, or its negation does), the conditional leaves the block as it was and
  returns true: nothing is emitted for the then branch or the else branch, and a
  sequence of statements is traversed as if the conditional were not in it.
\<close>

theorem unmodelled_guard_skips_conditional:
  assumes "Condition_of ops cond = None \<or>
           (\<exists>c. Condition_of ops cond = Some c \<and> Condition_Negate ops c = None)"
  shows "TraverseStmt ops v (IfStmt cond thn els) Target = (True, Target) \<and>
         TraverseStmts ops v (before @ IfStmt cond thn els # after) Target =
           TraverseStmts ops v (before @ after) Target"
proof -
  have skip: "TraverseStmt ops v (IfStmt cond thn els) T = (True, T)" for T
    using assms by auto
  have "TraverseStmts ops v (IfStmt cond thn els # after) T = TraverseStmts ops v after T" for T
    by (simp only: TraverseStmts.simps skip TRY_TO_True)
  then have "TraverseStmts ops v (before @ IfStmt cond thn els # after) Target =
        TraverseStmts ops v (before @ after) Target"
    by (simp only: TraverseStmts_append)
  with skip show ?thesis by simp
qed

theorem unmodelled_guard_skips_conditional_witness:
  "Condition_of example_ops (BinaryOperator (2, 9) BO_LT (DeclRefExpr (VarDeclRef ''x''))
      (DeclRefExpr (VarDeclRef ''y''))) = None \<and>
   Actions (snd (TraverseStmts example_ops FunctionVisitor
      ([assign 1 ''a'' ''b''] @
       IfStmt (BinaryOperator (2, 9) BO_LT (DeclRefExpr (VarDeclRef ''x''))
                 (DeclRefExpr (VarDeclRef ''y'')))
         (CompoundStmt [assign 3 ''c'' ''d'']) (Some (CompoundStmt [assign 5 ''e'' ''f''])) #
       [assign 7 ''g'' ''h''])
      (CodeBlock_new ''f'' (1, 1)))) =
     [copy_action CAlways 1 ''a'' ''b'', copy_action CAlways 7 ''g'' ''h''] \<and>
   Condition_of example_ops (BinaryOperator (2, 9) BO_LAnd (DeclRefExpr (VarDeclRef ''x''))
      (DeclRefExpr (VarDeclRef ''y''))) = Some (CAnd (CVariable ''x'' True) (CVariable ''y'' True)) \<and>
   Condition_Negate example_ops (CAnd (CVariable ''x'' True) (CVariable ''y'' True)) = None \<and>
   TraverseStmt example_ops FunctionVisitor
     (IfStmt (BinaryOperator (2, 9) BO_LAnd (DeclRefExpr (VarDeclRef ''x''))
                (DeclRefExpr (VarDeclRef ''y'')))
        (CompoundStmt [assign 3 ''c'' ''d'']) (Some (CompoundStmt [assign 5 ''e'' ''f''])))
     (CodeBlock_new ''f'' (1, 1)) = (True, CodeBlock_new ''f'' (1, 1))"
proof -
  have h: "Condition_of example_ops (BinaryOperator (2, 9) BO_LT (DeclRefExpr (VarDeclRef ''x''))
      (DeclRefExpr (VarDeclRef ''y''))) = None"
    by (simp add: example_ops_def)
  have g: "Condition_of example_ops (BinaryOperator (2, 9) BO_LAnd (DeclRefExpr (VarDeclRef ''x''))
      (DeclRefExpr (VarDeclRef ''y''))) = Some (CAnd (CVariable ''x'' True) (CVariable ''y'' True))"
    "Condition_Negate example_ops (CAnd (CVariable ''x'' True) (CVariable ''y'' True)) = None"
    by (simp_all add: example_ops_def)
  have rest: "Actions (snd (TraverseStmts example_ops FunctionVisitor
      ([assign 1 ''a'' ''b''] @ [assign 7 ''g'' ''h'']) (CodeBlock_new ''f'' (1, 1)))) =
     [copy_action CAlways 1 ''a'' ''b'', copy_action CAlways 7 ''g'' ''h'']"
    by (simp add: assign_def copy_action_def eval_simps)
  have "TraverseStmts example_ops FunctionVisitor
      ([assign 1 ''a'' ''b''] @
       IfStmt (BinaryOperator (2, 9) BO_LT (DeclRefExpr (VarDeclRef ''x''))
                 (DeclRefExpr (VarDeclRef ''y'')))
         (CompoundStmt [assign 3 ''c'' ''d'']) (Some (CompoundStmt [assign 5 ''e'' ''f''])) #
       [assign 7 ''g'' ''h''])
      (CodeBlock_new ''f'' (1, 1)) =
    TraverseStmts example_ops FunctionVisitor
      ([assign 1 ''a'' ''b''] @ [assign 7 ''g'' ''h'']) (CodeBlock_new ''f'' (1, 1))"
    using unmodelled_guard_skips_conditional [OF disjI1 [OF h]] by blast
  with rest have r1: "Actions (snd (TraverseStmts example_ops FunctionVisitor
      ([assign 1 ''a'' ''b''] @
       IfStmt (BinaryOperator (2, 9) BO_LT (DeclRefExpr (VarDeclRef ''x''))
                 (DeclRefExpr (VarDeclRef ''y'')))
         (CompoundStmt [assign 3 ''c'' ''d'']) (Some (CompoundStmt [assign 5 ''e'' ''f''])) #
       [assign 7 ''g'' ''h''])
      (CodeBlock_new ''f'' (1, 1)))) =
     [copy_action CAlways 1 ''a'' ''b'', copy_action CAlways 7 ''g'' ''h'']"
    by (simp only:)
  have "\<exists>c. Condition_of example_ops (BinaryOperator (2, 9) BO_LAnd
          (DeclRefExpr (VarDeclRef ''x'')) (DeclRefExpr (VarDeclRef ''y''))) = Some c \<and>
        Condition_Negate example_ops c = None"
    using g by blast
  from unmodelled_guard_skips_conditional [OF disjI2 [OF this]]
  have r2: "TraverseStmt example_ops FunctionVisitor
     (IfStmt (BinaryOperator (2, 9) BO_LAnd (DeclRefExpr (VarDeclRef ''x''))
                (DeclRefExpr (VarDeclRef ''y'')))
        (CompoundStmt [assign 3 ''c'' ''d'']) (Some (CompoundStmt [assign 5 ''e'' ''f''])))
     (CodeBlock_new ''f'' (1, 1)) = (True, CodeBlock_new ''f'' (1, 1))"
    by blast
  from h g r1 r2 show ?thesis by (intro conjI)
qed

section \<open>Assignments, calls, subscripts and declarations\<close>




text \<open>
  Claim C4 says that only a bare integer literal makes an argument \<open>Primitive\<close>. The
  helper visitor of an argument walks the whole argument and stops at the first integer
  literal: for \<^verbatim>\<open>foo(x + 3);\<close> the argument is recorded as \<open>Primitive(3)\<close>.
\<close>

theorem FunctionCall_compound_argument_counterexample:
  "TraverseCallExpr CAlways
     (CallExpr (3, 5) (Some ''foo'') (ImplicitCastExpr (DeclRefExpr (OtherDeclRef ''foo'')))
        [BinaryOperator (3, 9) BO_Add (ImplicitCastExpr (DeclRefExpr (VarDeclRef ''x'')))
           (IntegerLiteral 3)])
     (CodeBlock_new ''f'' (1, 1)) =
   (True, \<lparr>BlockName = ''f'', BlockLocation = (1, 1), Parameters = [],
           Actions = [(FunctionCall CAlways ''foo''
                         [VariableState Primitive
                            (PrimitiveInfoValue (PrimitiveInfo (IntegerValue 3)))],
                       (3, 5))]\<rparr>)"
  by (simp add: eval_simps)

text \<open>
  Claim C4, as the code has it. On a call with a direct callee \<open>TraverseCallExpr\<close>
  emits exactly one \<open>FunctionCall\<close> with the qualified name of the callee and one state
  per argument, in order: \<open>Primitive(n)\<close> when the argument's tree contains an integer
  literal, \<open>n\<close> being the first in pre-order, and \<open>Unknown\<close> when it contains none.
  A call without a direct callee emits nothing. The trace-building visitors hand every
  call they reach to \<open>TraverseCallExpr\<close> and do not descend into it. A literal
  argument gives its value, a bare variable gives \<open>Unknown\<close>: \<^verbatim>\<open>foo(3, x);\<close> emits
  \<open>FunctionCall("foo", [Primitive(3), Unknown])\<close>.
\<close>

theorem FunctionCall_arguments:
  "TraverseCallExpr cur (CallExpr loc (Some functionName) fn args) Target =
     (True,
      AddProcessedAction
        (FunctionCall cur functionName
           (map (\<lambda>arg. case first_integer_literal arg of
                          Some n \<Rightarrow> Primitive_state n
                        | None \<Rightarrow> Unknown_state) args))
        loc Target) \<and>
   TraverseCallExpr cur (CallExpr loc None fn args) Target = (True, Target) \<and>
   TraverseStmt ops v (CallExpr loc callee fn args) Target =
     TraverseCallExpr (GetCurrentCondition ops v) (CallExpr loc callee fn args) Target \<and>
   first_integer_literal (IntegerLiteral n) = Some n \<and>
   (bare_variable arg = Some var \<longrightarrow> first_integer_literal arg = None)"
proof -
  have "callParams_loop args [] =
      map (\<lambda>arg. case first_integer_literal arg of
                    Some n \<Rightarrow> Primitive_state n
                  | None \<Rightarrow> Unknown_state) args"
    by (simp add: callParams_loop_eq argument_state_eq)
  then have emitted: "TraverseCallExpr cur (CallExpr loc (Some functionName) fn args) Target =
     (True,
      AddProcessedAction
        (FunctionCall cur functionName
           (map (\<lambda>arg. case first_integer_literal arg of
                          Some n \<Rightarrow> Primitive_state n
                        | None \<Rightarrow> Unknown_state) args))
        loc Target)"
    by (simp add: Visit_simps Let_def)
  have indirect: "TraverseCallExpr cur (CallExpr loc None fn args) Target = (True, Target)"
    by (simp add: Visit_simps)
  have main: "TraverseStmt ops v (CallExpr loc callee fn args) Target =
     TraverseCallExpr (GetCurrentCondition ops v) (CallExpr loc callee fn args) Target"
    by simp
  have lit: "first_integer_literal (IntegerLiteral n) = Some n"
    by (simp add: first_integer_literal_def)
  have var: "bare_variable arg = Some var \<longrightarrow> first_integer_literal arg = None"
    by (simp add: first_integer_literal_def bare_variable_no_literal)
  from emitted indirect main lit var show ?thesis by (intro conjI)
qed

theorem FunctionCall_arguments_witness:
  "bare_variable (ImplicitCastExpr (DeclRefExpr (VarDeclRef ''x''))) = Some ''x'' \<and>
   TraverseCallExpr CAlways
     (CallExpr (3, 5) (Some ''foo'') (ImplicitCastExpr (DeclRefExpr (OtherDeclRef ''foo'')))
        [IntegerLiteral 3, ImplicitCastExpr (DeclRefExpr (VarDeclRef ''x''))])
     (CodeBlock_new ''f'' (1, 1)) =
   (True, \<lparr>BlockName = ''f'', BlockLocation = (1, 1), Parameters = [],
           Actions = [(FunctionCall CAlways ''foo'' [Primitive_state 3, Unknown_state],
                       (3, 5))]\<rparr>)"
proof -
  have h: "bare_variable (ImplicitCastExpr (DeclRefExpr (VarDeclRef ''x''))) = Some ''x''"
    by simp
  note inst = FunctionCall_arguments [where cur = CAlways and loc = "(3, 5)"
      and functionName = "''foo''" and fn = "ImplicitCastExpr (DeclRefExpr (OtherDeclRef ''foo''))"
      and args = "[IntegerLiteral 3, ImplicitCastExpr (DeclRefExpr (VarDeclRef ''x''))]"
      and Target = "CodeBlock_new ''f'' (1, 1)" and n = 3
      and arg = "ImplicitCastExpr (DeclRefExpr (VarDeclRef ''x''))" and var = "''x''"
      and ops = example_ops and v = FunctionVisitor and callee = None]
  from inst h have x: "first_integer_literal (ImplicitCastExpr (DeclRefExpr (VarDeclRef ''x''))) = None"
    by blast
  from inst have three: "first_integer_literal (IntegerLiteral 3) = Some 3"
    by blast
  from inst have "TraverseCallExpr CAlways
     (CallExpr (3, 5) (Some ''foo'') (ImplicitCastExpr (DeclRefExpr (OtherDeclRef ''foo'')))
        [IntegerLiteral 3, ImplicitCastExpr (DeclRefExpr (VarDeclRef ''x''))])
     (CodeBlock_new ''f'' (1, 1)) =
     (True,
      AddProcessedAction
        (FunctionCall CAlways ''foo''
           (map (\<lambda>arg. case first_integer_literal arg of
                          Some n \<Rightarrow> Primitive_state n
                        | None \<Rightarrow> Unknown_state)
              [IntegerLiteral 3, ImplicitCastExpr (DeclRefExpr (VarDeclRef ''x''))]))
        (3, 5) (CodeBlock_new ''f'' (1, 1)))"
    by blast
  with h x three show ?thesis
    by (simp add: AddProcessedAction_def CodeBlock_new_def)
qed




text \<open>
  Claim C6 says that \<^verbatim>\<open>char* s = "hi";\<close> gives \<open>Buffer(size = 2)\<close>. The initialiser
  of a pointer is the literal under an implicit array-to-pointer conversion, not a node
  of class \<open>StringLiteral\<close>, and the declaration is recorded with state \<open>Unknown\<close>.
\<close>

theorem VarDeclared_pointer_to_literal_counterexample:
  "VisitVarDecl CAlways
     (VarDecl (2, 5) ''s'' ''char *'' (Some (ImplicitCastExpr (StringLiteral ''hi''))))
     (CodeBlock_new ''f'' (1, 1)) =
   (True, \<lparr>BlockName = ''f'', BlockLocation = (1, 1), Parameters = [],
           Actions = [(VarDeclared CAlways (VariableIdentifier ''s'')
                         (VariableState Unknown Monostate), (2, 5))]\<rparr>)"
  by (simp add: eval_simps)

text \<open>
  Claim C6, as the code has it. For a variable declaration that is no parameter exactly
  one \<open>VarDeclared\<close> is emitted. Its state is \<open>Buffer(size)\<close>, not null, with \<open>size\<close>
  the number of bytes of the literal without a terminator, when the initialiser node
  itself is a string literal, as in \<^verbatim>\<open>char s[] = "hi";\<close>, which gives
  \<open>Buffer(size = 2)\<close>; it is \<open>Unknown\<close> for any other initialiser and for none. A
  parameter emits nothing.
\<close>

theorem VarDeclared_initial_state:
  "VisitVarDecl cur (VarDecl loc name ty (Some (StringLiteral bytes))) Target =
     (True, AddProcessedAction
              (VarDeclared cur (VariableIdentifier name) (Buffer_state (length bytes)))
              loc Target) \<and>
   ((\<forall>bytes. init \<noteq> Some (StringLiteral bytes)) \<longrightarrow>
      VisitVarDecl cur (VarDecl loc name ty init) Target =
        (True, AddProcessedAction (VarDeclared cur (VariableIdentifier name) Unknown_state)
                 loc Target)) \<and>
   VisitVarDecl cur (ParmVarDecl loc name ty) Target = (True, Target)"
proof -
  have other: "initial_state init = Unknown_state" if "\<forall>bytes. init \<noteq> Some (StringLiteral bytes)"
    using that
    by (cases init rule: initial_state.cases)
      (simp_all add: Unknown_state_def VariableState_default_def)
  then show ?thesis
    by (simp add: Visit_simps Let_def Buffer_state_def Set_Buffer_def BufferInfo_size_def)
qed

theorem VarDeclared_initial_state_witness:
  "VisitVarDecl CAlways (VarDecl (2, 5) ''s'' ''char[3]'' (Some (StringLiteral ''hi'')))
     (CodeBlock_new ''f'' (1, 1)) =
   (True, \<lparr>BlockName = ''f'', BlockLocation = (1, 1), Parameters = [],
           Actions = [(VarDeclared CAlways (VariableIdentifier ''s'') (Buffer_state 2),
                       (2, 5))]\<rparr>) \<and>
   (\<forall>bytes. Some (IntegerLiteral 7) \<noteq> Some (StringLiteral bytes)) \<and>
   VisitVarDecl CAlways (VarDecl (3, 5) ''n'' ''int'' (Some (IntegerLiteral 7)))
     (CodeBlock_new ''f'' (1, 1)) =
   (True, \<lparr>BlockName = ''f'', BlockLocation = (1, 1), Parameters = [],
           Actions = [(VarDeclared CAlways (VariableIdentifier ''n'') Unknown_state,
                       (3, 5))]\<rparr>) \<and>
   (\<forall>bytes. (None :: stmt option) \<noteq> Some (StringLiteral bytes)) \<and>
   VisitVarDecl CAlways (VarDecl (4, 5) ''m'' ''int'' None) (CodeBlock_new ''f'' (1, 1)) =
   (True, \<lparr>BlockName = ''f'', BlockLocation = (1, 1), Parameters = [],
           Actions = [(VarDeclared CAlways (VariableIdentifier ''m'') Unknown_state,
                       (4, 5))]\<rparr>)"
proof -
  have h1: "\<forall>bytes. Some (IntegerLiteral 7) \<noteq> Some (StringLiteral bytes)"
    and h2: "\<forall>bytes. (None :: stmt option) \<noteq> Some (StringLiteral bytes)"
    by simp_all
  have r1: "VisitVarDecl CAlways (VarDecl (2, 5) ''s'' ''char[3]'' (Some (StringLiteral ''hi'')))
     (CodeBlock_new ''f'' (1, 1)) =
     (True, AddProcessedAction
              (VarDeclared CAlways (VariableIdentifier ''s'') (Buffer_state (length ''hi'')))
              (2, 5) (CodeBlock_new ''f'' (1, 1)))"
    using VarDeclared_initial_state [where cur = CAlways and Target = "CodeBlock_new ''f'' (1, 1)"
        and init = None]
    by blast
  have r2: "VisitVarDecl CAlways (VarDecl (3, 5) ''n'' ''int'' (Some (IntegerLiteral 7)))
     (CodeBlock_new ''f'' (1, 1)) =
     (True, AddProcessedAction (VarDeclared CAlways (VariableIdentifier ''n'') Unknown_state)
              (3, 5) (CodeBlock_new ''f'' (1, 1)))"
    using VarDeclared_initial_state [where cur = CAlways and Target = "CodeBlock_new ''f'' (1, 1)"
        and init = "Some (IntegerLiteral 7)" and loc = "(3, 5)" and name = "''n''"
        and ty = "''int''"] h1
    by blast
  have r3: "VisitVarDecl CAlways (VarDecl (4, 5) ''m'' ''int'' None) (CodeBlock_new ''f'' (1, 1)) =
     (True, AddProcessedAction (VarDeclared CAlways (VariableIdentifier ''m'') Unknown_state)
              (4, 5) (CodeBlock_new ''f'' (1, 1)))"
    using VarDeclared_initial_state [where cur = CAlways and Target = "CodeBlock_new ''f'' (1, 1)"
        and init = None and loc = "(4, 5)" and name = "''m''" and ty = "''int''"] h2
    by blast
  from r1 r2 r3 h1 h2 show ?thesis
    by (simp add: AddProcessedAction_def CodeBlock_new_def numeral_2_eq_2)
qed

section \<open>Properties of the value model\<close>

lemmas enum_defs = LESS_THAN_def LESS_THAN_EQUAL_def GREATER_THAN_def GREATER_THAN_EQUAL_def
  NOT_EQUAL_def EQUAL_def

lemma Negate_enumerator:
  "op \<in> set enumerators \<Longrightarrow>
     \<exists>r. Negate op = Inr r \<and> r \<in> set enumerators \<and> r \<noteq> op \<and> Negate r = Inr op"
  by (auto simp: enumerators_def Negate_def enum_defs)

text \<open>
  Claim C7. On the six enumerators \<open>Negate\<close> follows the table \<open><\<close> to \<open>>=\<close>,
  \<open><=\<close> to \<open>>\<close>, \<open>!=\<close> to \<open>==\<close> and back; it returns normally with an
  enumerator different from its argument, applying it twice gives the argument back, and
  it is a bijection of the six enumerators onto themselves.
\<close>

theorem Negate_involutive_bijection:
  "Negate LESS_THAN = Inr GREATER_THAN_EQUAL \<and> Negate GREATER_THAN_EQUAL = Inr LESS_THAN \<and>
   Negate LESS_THAN_EQUAL = Inr GREATER_THAN \<and> Negate GREATER_THAN = Inr LESS_THAN_EQUAL \<and>
   Negate NOT_EQUAL = Inr EQUAL \<and> Negate EQUAL = Inr NOT_EQUAL \<and>
   (\<forall>op \<in> set enumerators.
      \<exists>r. Negate op = Inr r \<and> r \<in> set enumerators \<and> r \<noteq> op \<and> Negate r = Inr op) \<and>
   inj_on Negate (set enumerators) \<and>
   Negate ` set enumerators = Inr ` set enumerators"
proof -
  have table:
    "Negate LESS_THAN = Inr GREATER_THAN_EQUAL" "Negate GREATER_THAN_EQUAL = Inr LESS_THAN"
    "Negate LESS_THAN_EQUAL = Inr GREATER_THAN" "Negate GREATER_THAN = Inr LESS_THAN_EQUAL"
    "Negate NOT_EQUAL = Inr EQUAL" "Negate EQUAL = Inr NOT_EQUAL"
    by (simp_all add: Negate_def enum_defs)
  have inj: "inj_on Negate (set enumerators)"
    by (rule inj_onI) (auto simp: enumerators_def Negate_def enum_defs split: if_splits)
  have img: "Negate ` set enumerators = Inr ` set enumerators"
    by (auto simp: enumerators_def table)
  from table Negate_enumerator inj img show ?thesis by blast
qed

theorem Negate_involutive_bijection_witness:
  "NOT_EQUAL \<in> set enumerators \<and>
   (\<exists>r. Negate NOT_EQUAL = Inr r \<and> r \<in> set enumerators \<and> r \<noteq> NOT_EQUAL \<and>
        Negate r = Inr NOT_EQUAL)"
proof -
  have mem: "NOT_EQUAL \<in> set enumerators" by (simp add: enumerators_def)
  from Negate_involutive_bijection have
    "\<forall>op \<in> set enumerators.
      \<exists>r. Negate op = Inr r \<and> r \<in> set enumerators \<and> r \<noteq> op \<and> Negate r = Inr op"
    by blast
  with mem show ?thesis by blast
qed

text \<open>
  Claim C8. \<open>Negate\<close> and \<open>Dump\<close> throw exactly for the values of the underlying
  type that are none of the six enumerators; on an enumerator both return normally.
\<close>

theorem Negate_Dump_throw_only_outside_enumerators:
  "((\<exists>e. Negate op = Inl e) \<longleftrightarrow> op \<notin> set enumerators) \<and>
   ((\<exists>e. Dump op = Inl e) \<longleftrightarrow> op \<notin> set enumerators) \<and>
   (op \<in> set enumerators \<longrightarrow> (\<exists>r. Negate op = Inr r) \<and> (\<exists>s. Dump op = Inr s))"
  by (auto simp: enumerators_def Negate_def Dump_def enum_defs)

theorem Negate_Dump_throw_only_outside_enumerators_witness:
  "GREATER_THAN \<in> set enumerators \<and>
   (\<exists>r. Negate GREATER_THAN = Inr r) \<and> (\<exists>s. Dump GREATER_THAN = Inr s) \<and>
   (6::int) \<notin> set enumerators \<and> (\<exists>e. Negate 6 = Inl e) \<and> (\<exists>e. Dump 6 = Inl e)"
proof -
  have mem: "GREATER_THAN \<in> set enumerators" and out: "(6::int) \<notin> set enumerators"
    by (simp_all add: enumerators_def enum_defs)
  from mem out Negate_Dump_throw_only_outside_enumerators [of GREATER_THAN]
    Negate_Dump_throw_only_outside_enumerators [of 6]
  show ?thesis by blast
qed

text \<open>
  Claim C9. The \<^verbatim>\<open>nullptr\<close> constructor gives a null buffer with allocated size 0,
  the size constructor gives a buffer that is not null and has the size passed, and no
  value built by either constructor is null and has a non-zero allocated size.
\<close>

theorem BufferInfo_null_xor_sized:
  "NullPtr BufferInfo_nullptr \<and> AllocatedSize BufferInfo_nullptr = 0 \<and>
   (\<forall>sz. \<not> NullPtr (BufferInfo_size sz) \<and> AllocatedSize (BufferInfo_size sz) = sz) \<and>
   (\<forall>b. constructed b \<longrightarrow>
      \<not> (NullPtr b \<and> AllocatedSize b \<noteq> 0) \<and>
      (NullPtr b \<longleftrightarrow> b = BufferInfo_nullptr) \<and>
      (\<not> NullPtr b \<longleftrightarrow> (\<exists>sz. b = BufferInfo_size sz)))"
  by (auto simp: constructed_def BufferInfo_nullptr_def BufferInfo_size_def)

theorem BufferInfo_null_xor_sized_witness:
  "constructed (BufferInfo_size 2) \<and> \<not> NullPtr (BufferInfo_size 2) \<and>
   AllocatedSize (BufferInfo_size 2) = 2 \<and>
   constructed BufferInfo_nullptr \<and> NullPtr BufferInfo_nullptr \<and>
   AllocatedSize BufferInfo_nullptr = 0"
proof -
  have c: "constructed (BufferInfo_size 2)" "constructed BufferInfo_nullptr"
    by (auto simp: constructed_def)
  from c BufferInfo_null_xor_sized show ?thesis by blast
qed

section \<open>Function declarations\<close>

text \<open>
  Claim C10. Every call of \<open>TraverseFunctionDecl\<close> on a function declaration, with or
  without a body, adds exactly one block to the registry, which carries the qualified
  name of the function and the location of that declaration. A function that is
  declared and later defined therefore gives two blocks under the same name, each with
  the location of its own declaration.
\<close>

theorem function_block_registered:
  "(\<exists>block.
      TraverseFunctionDecl ops (FunctionDecl loc name params body) Registry =
        (True, Registry @ [block]) \<and>
      BlockName block = name \<and> BlockLocation block = loc) \<and>
   (\<exists>declared defined.
      snd (TraverseFunctionDecl ops (FunctionDecl defLoc name defParams (Some b))
             (snd (TraverseFunctionDecl ops (FunctionDecl declLoc name declParams None) Registry))) =
        Registry @ [declared, defined] \<and>
      BlockName declared = name \<and> BlockLocation declared = declLoc \<and>
      BlockName defined = name \<and> BlockLocation defined = defLoc)"
proof -
  have one: "\<exists>block.
      TraverseFunctionDecl ops (FunctionDecl loc name params body) Registry =
        (True, Registry @ [block]) \<and>
      BlockName block = name \<and> BlockLocation block = loc" for loc name params body Registry
    using TraverseDecl_same_function
      [of "CodeBlock_new name loc" ops FunctionVisitor "FunctionDecl loc name params body"]
    by (simp add: Let_def AddBlock_def same_function_def CodeBlock_new_def
        del: TraverseDecl.simps)
  from one [of declLoc name declParams None Registry] obtain declared where
    d: "TraverseFunctionDecl ops (FunctionDecl declLoc name declParams None) Registry =
          (True, Registry @ [declared])"
      "BlockName declared = name" "BlockLocation declared = declLoc"
    by blast
  from one [of defLoc name defParams "Some b" "Registry @ [declared]"] obtain defined where
    e: "TraverseFunctionDecl ops (FunctionDecl defLoc name defParams (Some b)) (Registry @ [declared]) =
          (True, (Registry @ [declared]) @ [defined])"
      "BlockName defined = name" "BlockLocation defined = defLoc"
    by blast
  have "snd (TraverseFunctionDecl ops (FunctionDecl defLoc name defParams (Some b))
             (snd (TraverseFunctionDecl ops (FunctionDecl declLoc name declParams None) Registry))) =
        Registry @ [declared, defined]"
    by (simp only: d(1) e(1) snd_conv append_assoc append.simps)
  with d e one [of loc name params body Registry] show ?thesis by blast
qed

theorem function_block_registered_witness:
  "(\<exists>declared defined.
      snd (TraverseFunctionDecl example_ops
             (FunctionDecl (5, 1) ''g'' [ParmVarDecl (5, 8) ''n'' ''int'']
                (Some (CompoundStmt [assign 6 ''a'' ''n''])))
             (snd (TraverseFunctionDecl example_ops
                     (FunctionDecl (1, 1) ''g'' [ParmVarDecl (1, 8) ''n'' ''int''] None) []))) =
        [declared, defined] \<and>
      BlockName declared = ''g'' \<and> BlockLocation declared = (1, 1) \<and>
      BlockName defined = ''g'' \<and> BlockLocation defined = (5, 1)) \<and>
   snd (TraverseFunctionDecl example_ops
          (FunctionDecl (5, 1) ''g'' [ParmVarDecl (5, 8) ''n'' ''int'']
             (Some (CompoundStmt [assign 6 ''a'' ''n''])))
          (snd (TraverseFunctionDecl example_ops
                  (FunctionDecl (1, 1) ''g'' [ParmVarDecl (1, 8) ''n'' ''int''] None) []))) =
   [\<lparr>BlockName = ''g'', BlockLocation = (1, 1), Parameters = [VariableIdentifier ''n''],
      Actions = []\<rparr>,
    \<lparr>BlockName = ''g'', BlockLocation = (5, 1), Parameters = [VariableIdentifier ''n''],
      Actions = [copy_action CAlways 6 ''a'' ''n'']\<rparr>]"
proof -
  from function_block_registered [where ops = example_ops and name = "''g''"
      and declLoc = "(1, 1)" and declParams = "[ParmVarDecl (1, 8) ''n'' ''int'']"
      and defLoc = "(5, 1)" and defParams = "[ParmVarDecl (5, 8) ''n'' ''int'']"
      and b = "CompoundStmt [assign 6 ''a'' ''n'']" and Registry = "[]"
      and loc = "(1, 1)" and params = "[]" and body = None]
  have two: "\<exists>declared defined.
      snd (TraverseFunctionDecl example_ops
             (FunctionDecl (5, 1) ''g'' [ParmVarDecl (5, 8) ''n'' ''int'']
                (Some (CompoundStmt [assign 6 ''a'' ''n''])))
             (snd (TraverseFunctionDecl example_ops
                     (FunctionDecl (1, 1) ''g'' [ParmVarDecl (1, 8) ''n'' ''int''] None) []))) =
        [declared, defined] \<and>
      BlockName declared = ''g'' \<and> BlockLocation declared = (1, 1) \<and>
      BlockName defined = ''g'' \<and> BlockLocation defined = (5, 1)"
    by (simp only: append_Nil conj_assoc simp_thms)
  have run: "snd (TraverseFunctionDecl example_ops
          (FunctionDecl (5, 1) ''g'' [ParmVarDecl (5, 8) ''n'' ''int'']
             (Some (CompoundStmt [assign 6 ''a'' ''n''])))
          (snd (TraverseFunctionDecl example_ops
                  (FunctionDecl (1, 1) ''g'' [ParmVarDecl (1, 8) ''n'' ''int''] None) []))) =
   [\<lparr>BlockName = ''g'', BlockLocation = (1, 1), Parameters = [VariableIdentifier ''n''],
      Actions = []\<rparr>,
    \<lparr>BlockName = ''g'', BlockLocation = (5, 1), Parameters = [VariableIdentifier ''n''],
      Actions = [copy_action CAlways 6 ''a'' ''n'']\<rparr>]"
    by (simp add: assign_def copy_action_def eval_simps)
  from two run show ?thesis by (rule conjI)
qed

end
